theory Spec2Isabelle
  imports Main "HOL-Library.Char_ord" "HOL-Library.List_Lexorder" "HOL-Library.Sublist"
    "HOL-Library.Multiset"
begin

section \<open>Orpheus: handler registry, routing and the Gemini client\<close>

text \<open>
  A shallow embedding of \<^verbatim>\<open>orpheus/orpheus_core.py\<close>,
  \<^verbatim>\<open>orpheus/services/gemini_client.py\<close>, \<^verbatim>\<open>orpheus/models/response.py\<close> and the
  three handlers under \<^verbatim>\<open>orpheus/query_handlers\<close>.

  Python strings are \<open>string\<close>: the UTF-8 bytes of the text. Byte-wise lexicographic
  order on UTF-8 is the code-point order Python compares \<^verbatim>\<open>str\<close> with, which
  \<open>HOL-Library.Char_ord\<close> and \<open>HOL-Library.List_Lexorder\<close> give to \<open>string\<close>.
  Console output (\<^verbatim>\<open>print\<close>) is not modelled.
\<close>

subsection \<open>Values and exceptions of the Python runtime\<close>

text \<open>The value of \<^verbatim>\<open>response.json()\<close>: dictionaries are association lists
  looked up with \<open>map_of\<close>.\<close>

datatype json =
    JNull
  | JBool bool
  | JNum int
  | JStr string
  | JArr "json list"
  | JObj "(string \<times> json) list"

text \<open>The exceptions the modelled code can meet. \<open>RequestException resp txt\<close> is any
  \<^verbatim>\<open>requests.exceptions.RequestException\<close>: \<open>resp\<close> is the status code of
  \<^verbatim>\<open>e.response\<close> when there is one, \<open>txt\<close> is \<^verbatim>\<open>str(e)\<close>.\<close>

datatype py_exception =
    RequestException "int option" string
  | KeyError
  | IndexError
  | TypeError
  | AttributeError
  | OtherError string

subsection \<open>\<^verbatim>\<open>models/response.py\<close>\<close>

record HandlerResponse =
  status :: string
  display_message :: string
  metadata :: "string \<rightharpoonup> json"

text \<open>The generated constructor with \<^verbatim>\<open>metadata\<close> left to its
  \<^verbatim>\<open>default_factory=dict\<close>.\<close>

definition mk_response :: "string \<Rightarrow> string \<Rightarrow> HandlerResponse" where
  "mk_response st msg = \<lparr>status = st, display_message = msg, metadata = Map.empty\<rparr>"

subsection \<open>The world the handlers act on\<close>

text \<open>What \<^verbatim>\<open>requests.post\<close> does: it returns a response or raises.\<close>

record http_response =
  status_code :: int
  http_error_text :: string
  json_body :: "py_exception + json"

datatype post_outcome = Returned http_response | Raised py_exception

text \<open>What \<^verbatim>\<open>subprocess.run(['git', 'diff', '--staged'], check=True)\<close> does.\<close>

datatype git_run =
    Completed string
  | CalledProcessError string
  | FileNotFoundError
  | GitRaised py_exception

text \<open>
  The first four fields are what the program reads from its environment:
  \<^verbatim>\<open>config.GEMINI_API_KEY\<close>, the reply of the \<open>n\<close>-th \<^verbatim>\<open>requests.post\<close> of the
  process to a prompt, \<^verbatim>\<open>platform.system()\<close> and the outcome of the git subprocess.
  The last three record its effects: the number of \<^verbatim>\<open>requests.post\<close> calls made,
  the arguments of \<^verbatim>\<open>time.sleep\<close> in order, and the commands given to
  \<^verbatim>\<open>os.system\<close> in order.
\<close>

record world =
  api_key :: "string option"
  transport :: "nat \<Rightarrow> string \<Rightarrow> post_outcome"
  platform_system :: string
  git_diff_staged :: git_run
  posts :: nat
  sleeps :: "int list"
  os_commands :: "string list"

subsection \<open>\<^verbatim>\<open>query_handlers/base_handler.py\<close>\<close>

text \<open>
  A handler instance: the name of its class, whether it is an instance of
  \<^verbatim>\<open>ChatHandler\<close>, and its two methods. \<^verbatim>\<open>can_handle\<close> is declared
  \<^verbatim>\<open>(query: str) -> bool\<close>; \<^verbatim>\<open>process\<close> acts on the world and may raise.
\<close>

record handler =
  class_name :: string
  isinstance_ChatHandler :: bool
  can_handle :: "string \<Rightarrow> bool"
  process :: "string \<Rightarrow> world \<Rightarrow> (py_exception + HandlerResponse) \<times> world"

subsection \<open>\<^verbatim>\<open>OrpheusCore._load_handlers\<close>\<close>

text \<open>\<^verbatim>\<open>chat_handler_instance = loaded_handlers.pop(i); loaded_handlers.append(...)\<close>\<close>

definition pop_append :: "nat \<Rightarrow> 'a list \<Rightarrow> 'a list" where
  "pop_append i hs = (take i hs @ drop (Suc i) hs) @ [hs ! i]"

text \<open>The loop over \<^verbatim>\<open>enumerate(loaded_handlers)\<close>, left at the first instance of
  \<^verbatim>\<open>ChatHandler\<close>.\<close>

fun move_fallback :: "(nat \<times> handler) list \<Rightarrow> handler list \<Rightarrow> handler list" where
  "move_fallback [] loaded = loaded"
| "move_fallback ((i, h) # rest) loaded =
     (if isinstance_ChatHandler h then pop_append i loaded else move_fallback rest loaded)"

text \<open>
  \<open>discovered\<close> is the list of instances in the order the directory scan created them.
  \<^verbatim>\<open>list.sort(key=...)\<close> is stable, as \<open>sort_key\<close> is.
\<close>

definition load_handlers :: "handler list \<Rightarrow> handler list" where
  "load_handlers discovered =
     (let loaded = sort_key class_name discovered
      in move_fallback (enumerate 0 loaded) loaded)"

subsection \<open>String methods of Python used by the code\<close>

text \<open>\<^verbatim>\<open>str.lower()\<close> on the ASCII letters; other bytes are left as they are.\<close>

definition lower_char :: "char \<Rightarrow> char" where
  "lower_char c =
     (if CHR ''A'' \<le> c \<and> c \<le> CHR ''Z'' then char_of (of_char c + (32::nat)) else c)"

definition py_lower :: "string \<Rightarrow> string" where
  "py_lower s = map lower_char s"

text \<open>
  \<^verbatim>\<open>str.strip()\<close> removes, at both ends, the characters for which
  \<^verbatim>\<open>str.isspace\<close> holds. In UTF-8 they take one, two or three bytes:
  \<^item> one byte: tab, line feed, vertical tab, form feed, carriage return (9 to 13), the four
    separators \<^verbatim>\<open>\x1c\<close> to \<^verbatim>\<open>\x1f\<close> and the space (28 to 32);
  \<^item> two bytes: U+0085 (\<^verbatim>\<open>C2 85\<close>) and U+00A0 (\<^verbatim>\<open>C2 A0\<close>);
  \<^item> three bytes: U+1680 (\<^verbatim>\<open>E1 9A 80\<close>), U+2000 to U+200A, U+2028, U+2029, U+202F
    (\<^verbatim>\<open>E2 80\<close> then \<^verbatim>\<open>80\<close> to \<^verbatim>\<open>8A\<close>, \<^verbatim>\<open>A8\<close>, \<^verbatim>\<open>A9\<close>, \<^verbatim>\<open>AF\<close>),
    U+205F (\<^verbatim>\<open>E2 81 9F\<close>) and U+3000 (\<^verbatim>\<open>E3 80 80\<close>).
\<close>

definition is_space :: "char \<Rightarrow> bool" where
  "is_space c =
     (let n = (of_char c :: nat) in (9 \<le> n \<and> n \<le> 13) \<or> (28 \<le> n \<and> n \<le> 32))"

definition is_space2 :: "char \<Rightarrow> char \<Rightarrow> bool" where
  "is_space2 a b = (a = CHR 0xC2 \<and> (b = CHR 0x85 \<or> b = CHR 0xA0))"

definition is_space3 :: "char \<Rightarrow> char \<Rightarrow> char \<Rightarrow> bool" where
  "is_space3 a b c =
     ((a = CHR 0xE1 \<and> b = CHR 0x9A \<and> c = CHR 0x80)
      \<or> (a = CHR 0xE2 \<and> b = CHR 0x80
          \<and> ((128 \<le> (of_char c :: nat) \<and> (of_char c :: nat) \<le> 138)
              \<or> c = CHR 0xA8 \<or> c = CHR 0xA9 \<or> c = CHR 0xAF))
      \<or> (a = CHR 0xE2 \<and> b = CHR 0x81 \<and> c = CHR 0x9F)
      \<or> (a = CHR 0xE3 \<and> b = CHR 0x80 \<and> c = CHR 0x80))"

text \<open>\<^verbatim>\<open>str.lstrip()\<close>, on the bytes from the front.\<close>

fun py_lstrip :: "string \<Rightarrow> string" where
  "py_lstrip (a # b # c # s) =
     (if is_space a then py_lstrip (b # c # s)
      else if is_space2 a b then py_lstrip (c # s)
      else if is_space3 a b c then py_lstrip s
      else a # b # c # s)"
| "py_lstrip [a, b] =
     (if is_space a then py_lstrip [b] else if is_space2 a b then [] else [a, b])"
| "py_lstrip [a] = (if is_space a then [] else [a])"
| "py_lstrip [] = []"

text \<open>\<^verbatim>\<open>str.rstrip()\<close>, on the reversed bytes: the last byte of the string comes
  first.\<close>

fun rstrip_reversed :: "string \<Rightarrow> string" where
  "rstrip_reversed (c # b # a # s) =
     (if is_space c then rstrip_reversed (b # a # s)
      else if is_space2 b c then rstrip_reversed (a # s)
      else if is_space3 a b c then rstrip_reversed s
      else c # b # a # s)"
| "rstrip_reversed [c, b] =
     (if is_space c then rstrip_reversed [b] else if is_space2 b c then [] else [c, b])"
| "rstrip_reversed [c] = (if is_space c then [] else [c])"
| "rstrip_reversed [] = []"

definition py_strip :: "string \<Rightarrow> string" where
  "py_strip s = rev (rstrip_reversed (rev (py_lstrip s)))"

text \<open>How an f-string renders a value that is a string or \<^verbatim>\<open>None\<close>.\<close>

definition format_str :: "string option \<Rightarrow> string" where
  "format_str v = (case v of None \<Rightarrow> ''None'' | Some s \<Rightarrow> s)"

text \<open>The truth value of a string or \<^verbatim>\<open>None\<close>, as in \<^verbatim>\<open>if error:\<close>.\<close>

definition truthy :: "string option \<Rightarrow> bool" where
  "truthy v = (case v of None \<Rightarrow> False | Some s \<Rightarrow> s \<noteq> [])"

definition nl :: string where
  "nl = [CHR 0x0A]"

text \<open>The UTF-8 bytes of the musical-notes character U+1F3B6.\<close>

definition music_notes :: string where
  "music_notes = [CHR 0xF0, CHR 0x9F, CHR 0x8E, CHR 0xB6]"

subsection \<open>Subscripting a JSON value\<close>

definition bind_exc :: "'e + 'a \<Rightarrow> ('a \<Rightarrow> 'e + 'b) \<Rightarrow> 'e + 'b" where
  "bind_exc m f = (case m of Inl e \<Rightarrow> Inl e | Inr v \<Rightarrow> f v)"

text \<open>\<^verbatim>\<open>v['k']\<close>: a dictionary is looked up; a list or a string refuses a string
  index; the other values are not subscriptable.\<close>

fun subscript_key :: "json \<Rightarrow> string \<Rightarrow> py_exception + json" where
  "subscript_key (JObj kvs) k = (case map_of kvs k of None \<Rightarrow> Inl KeyError | Some v \<Rightarrow> Inr v)"
| "subscript_key _ k = Inl TypeError"

text \<open>\<^verbatim>\<open>v[0]\<close>: a list or a string is indexed; a dictionary (whose keys are strings)
  has no key \<^verbatim>\<open>0\<close>; the other values are not subscriptable.\<close>

fun subscript_index :: "json \<Rightarrow> nat \<Rightarrow> py_exception + json" where
  "subscript_index (JArr vs) i = (if i < length vs then Inr (vs ! i) else Inl IndexError)"
| "subscript_index (JStr s) i = (if i < length s then Inr (JStr [s ! i]) else Inl IndexError)"
| "subscript_index (JObj kvs) i = Inl KeyError"
| "subscript_index _ i = Inl TypeError"

text \<open>\<^verbatim>\<open>answer.strip()\<close>: only a string has the method.\<close>

fun strip_method :: "json \<Rightarrow> py_exception + string" where
  "strip_method (JStr s) = Inr (py_strip s)"
| "strip_method _ = Inl AttributeError"

subsection \<open>\<^verbatim>\<open>services/gemini_client.py\<close>\<close>

definition max_retries :: nat where
  "max_retries = 3"

definition base_delay :: int where
  "base_delay = 1"

definition requests_post :: "string \<Rightarrow> world \<Rightarrow> post_outcome \<times> world" where
  "requests_post prompt w = (transport w (posts w) prompt, w\<lparr>posts := Suc (posts w)\<rparr>)"

definition time_sleep :: "int \<Rightarrow> world \<Rightarrow> world" where
  "time_sleep d w = w\<lparr>sleeps := sleeps w @ [d]\<rparr>"

text \<open>\<^verbatim>\<open>response.raise_for_status()\<close> raises an \<^verbatim>\<open>HTTPError\<close> carrying the
  response for a status from 400 to 599.\<close>

definition raise_for_status :: "http_response \<Rightarrow> py_exception + unit" where
  "raise_for_status r =
     (if 400 \<le> status_code r \<and> status_code r < 600
      then Inl (RequestException (Some (status_code r)) (http_error_text r))
      else Inr ())"

text \<open>The body of the \<^verbatim>\<open>try\<close> block, once \<^verbatim>\<open>requests.post\<close> has returned or
  raised: the value it returns, or the exception it raises.\<close>

definition try_body :: "post_outcome \<Rightarrow> py_exception + string" where
  "try_body outcome =
     (case outcome of
        Raised e \<Rightarrow> Inl e
      | Returned response \<Rightarrow>
          bind_exc (raise_for_status response) (\<lambda>_.
          bind_exc (json_body response) (\<lambda>json_response.
          bind_exc (subscript_key json_response ''candidates'') (\<lambda>a.
          bind_exc (subscript_index a 0) (\<lambda>b.
          bind_exc (subscript_key b ''content'') (\<lambda>c.
          bind_exc (subscript_key c ''parts'') (\<lambda>d.
          bind_exc (subscript_index d 0) (\<lambda>e.
          bind_exc (subscript_key e ''text'') strip_method))))))))"

text \<open>\<^verbatim>\<open>hasattr(e, 'response') and e.response is not None and
  500 <= e.response.status_code < 600\<close>\<close>

fun is_server_error :: "py_exception \<Rightarrow> bool" where
  "is_server_error (RequestException (Some sc) txt) = (500 \<le> sc \<and> sc < 600)"
| "is_server_error _ = False"

text \<open>The loop \<^verbatim>\<open>for attempt in range(max_retries)\<close>, over the attempt numbers
  still to come. The result is the returned pair or the exception that leaves
  \<^verbatim>\<open>query\<close>.\<close>

fun query_attempts ::
  "nat list \<Rightarrow> string \<Rightarrow> world \<Rightarrow> (py_exception + string option \<times> string option) \<times> world"
where
  "query_attempts [] prompt w =
     (Inr (None, Some ''The Gemini server remains unavailable after several attempts.''), w)"
| "query_attempts (attempt # rest) prompt w =
     (let (outcome, w1) = requests_post prompt w
      in case try_body outcome of
           Inr answer \<Rightarrow> (Inr (Some answer, None), w1)
         | Inl e \<Rightarrow>
             (case e of
                RequestException resp txt \<Rightarrow>
                  if is_server_error e
                  then query_attempts rest prompt (time_sleep (base_delay * 2 ^ attempt) w1)
                  else (Inr (None, Some (''Error communicating with the Gemini API: '' @ txt)), w1)
              | KeyError \<Rightarrow>
                  (Inr (None, Some ''Unexpected response format from the Gemini API.''), w1)
              | IndexError \<Rightarrow>
                  (Inr (None, Some ''Unexpected response format from the Gemini API.''), w1)
              | TypeError \<Rightarrow> (Inl e, w1)
              | AttributeError \<Rightarrow> (Inl e, w1)
              | OtherError msg \<Rightarrow> (Inl e, w1)))"

definition query ::
  "string \<Rightarrow> world \<Rightarrow> (py_exception + string option \<times> string option) \<times> world"
where
  "query prompt w =
     (if \<not> truthy (api_key w)
      then (Inr (None, Some ''GEMINI_API_KEY not found in configuration.''), w)
      else query_attempts [0..<max_retries] prompt w)"

subsection \<open>\<^verbatim>\<open>query_handlers/system_handler.py\<close>\<close>

definition SystemHandler_can_handle :: "string \<Rightarrow> bool" where
  "SystemHandler_can_handle query_text = (py_lower query_text \<in> set [''cls''])"

definition clear_screen :: "world \<Rightarrow> string \<times> world" where
  "clear_screen w =
     (let command = (if platform_system w = ''Windows'' then ''cls'' else ''clear'')
      in (''Terminal screen has been cleared.'', w\<lparr>os_commands := os_commands w @ [command]\<rparr>))"

definition SystemHandler_process ::
  "string \<Rightarrow> world \<Rightarrow> (py_exception + HandlerResponse) \<times> world"
where
  "SystemHandler_process query_text w =
     (let (message, w1) = clear_screen w
      in (Inr (mk_response ''success'' (music_notes @ '' '' @ message)), w1))"

definition SystemHandler :: handler where
  "SystemHandler =
     \<lparr>class_name = ''SystemHandler'', isinstance_ChatHandler = False,
      can_handle = SystemHandler_can_handle, process = SystemHandler_process\<rparr>"

subsection \<open>\<^verbatim>\<open>query_handlers/chat_handler.py\<close>\<close>

definition ChatHandler_can_handle :: "string \<Rightarrow> bool" where
  "ChatHandler_can_handle query_text = True"

definition build_personality_prompt :: "string \<Rightarrow> string" where
  \<open>build_personality_prompt query_text =
      ''You are Orpheus, a wise and articulate AI assistant to a user you refer to as 'the Architect'.'' @ nl @
      ''You currently operate through a Command-Line Interface (CLI).'' @ nl @
      ''Your purpose is to be a foundational part of the Architect's 'Argus' ecosystem, acting as an intelligent development partner.'' @ nl @
      ''Your core intelligence is powered by Google's Gemini model, which you access securely via an API key.'' @ nl @
      ''Your current capabilities are provided by your 'handlers':'' @ nl @
      ''- GitHandler: To analyze code changes and suggest professional commit messages.'' @ nl @
      ''- SystemHandler: To execute simple system commands, like clearing the terminal screen.'' @ nl @
      ''- ChatHandler (this is you): To answer general questions and provide information.'' @ nl @
      ''Your tone is knowledgeable, precise, and slightly philosophical, often using musical metaphors. You are a partner in creation.'' @ nl @
      ''Now, answer the Architect's following query:'' @ nl @ nl @
      ''Architect: "'' @ query_text @ ''"''\<close>

definition ChatHandler_process ::
  "string \<Rightarrow> world \<Rightarrow> (py_exception + HandlerResponse) \<times> world"
where
  "ChatHandler_process query_text w =
     (let full_prompt = build_personality_prompt query_text
      in case query full_prompt w of
           (Inl e, w1) \<Rightarrow> (Inl e, w1)
         | (Inr (answer, error), w1) \<Rightarrow>
             if truthy error
             then (Inr (mk_response ''failed'' (format_str error)), w1)
             else (Inr (mk_response ''success''
                          (nl @ music_notes @ '' Orpheus:'' @ nl @ format_str answer @ nl)), w1))"

definition ChatHandler :: handler where
  "ChatHandler =
     \<lparr>class_name = ''ChatHandler'', isinstance_ChatHandler = True,
      can_handle = ChatHandler_can_handle, process = ChatHandler_process\<rparr>"

subsection \<open>\<^verbatim>\<open>query_handlers/git_handler.py\<close>\<close>

definition GitHandler_can_handle :: "string \<Rightarrow> bool" where
  "GitHandler_can_handle query_text = sublist ''commit msg'' (py_lower query_text)"

definition get_staged_diff :: "world \<Rightarrow> py_exception + string option \<times> string option" where
  "get_staged_diff w =
     (case git_diff_staged w of
        Completed stdout \<Rightarrow>
          if stdout = []
          then Inr (None, Some ''There are no changes staged. Use 'git add <file>' first.'')
          else Inr (Some stdout, None)
      | CalledProcessError stderr \<Rightarrow> Inr (None, Some (''Error executing git diff: '' @ stderr))
      | FileNotFoundError \<Rightarrow>
          Inr (None,
            Some ''Command 'git' not found. This handler must be run inside a Git repository.'')
      | GitRaised e \<Rightarrow> Inl e)"

definition build_prompt :: "string option \<Rightarrow> string" where
  \<open>build_prompt diff_text =
      nl @
      ''        As Orpheus, an expert software engineering assistant, your task is to generate a precise and complete commit message based on the provided 'git diff'.'' @ nl @
      nl @
      ''        RULES:'' @ nl @
      ''        1.  Strictly follow the "Conventional Commits" standard.'' @ nl @
      ''        2.  The final output must be only the commit message itself.'' @ nl @
      ''        3.  The message must have the following structure:'' @ nl @
      ''            <type>(<scope>): <subject>'' @ nl @
      ''            <blank line>'' @ nl @
      ''            [optional body: explain the 'why' and 'how' of the change in more detail.]'' @ nl @
      ''            <blank line>'' @ nl @
      ''            [optional footer: for referencing issues, e.g., 'Closes #123'.]'' @ nl @
      ''        4.  The subject line must be in lowercase and not end with a period.'' @ nl @
      ''        5.  The message must focus on the *intent* of the change.'' @ nl @
      nl @
      ''        Based on the following diff, generate the complete commit message:'' @ nl @
      ''        ---'' @ nl @
      ''        '' @ format_str diff_text @ nl @
      ''        ---'' @ nl @
      ''        ''\<close>

definition GitHandler_process ::
  "string \<Rightarrow> world \<Rightarrow> (py_exception + HandlerResponse) \<times> world"
where
  "GitHandler_process query_text w =
     (case get_staged_diff w of
        Inl e \<Rightarrow> (Inl e, w)
      | Inr (diff_text, error) \<Rightarrow>
          if truthy error
          then (Inr (mk_response ''failed'' (format_str error)), w)
          else
            (let full_prompt = build_prompt diff_text
             in case query full_prompt w of
                  (Inl e, w1) \<Rightarrow> (Inl e, w1)
                | (Inr (suggestion, error), w1) \<Rightarrow>
                    if truthy error
                    then (Inr (mk_response ''failed'' (format_str error)), w1)
                    else (Inr (mk_response ''success''
                                 (nl @ music_notes @ '' AI-Generated Commit Suggestion:'' @ nl @ nl @
                                  ''--------------------------------------'' @ nl @
                                  format_str suggestion @ nl @
                                  ''--------------------------------------'' @ nl)), w1)))"

definition GitHandler :: handler where
  "GitHandler =
     \<lparr>class_name = ''GitHandler'', isinstance_ChatHandler = False,
      can_handle = GitHandler_can_handle, process = GitHandler_process\<rparr>"

subsection \<open>\<^verbatim>\<open>OrpheusCore.route_query\<close>\<close>

text \<open>The method calls \<^verbatim>\<open>route_query\<close> makes on the handlers, each named by the
  position of the handler in \<^verbatim>\<open>self.handlers\<close>.\<close>

datatype call = Can_Handle nat | Process nat

text \<open>
  The loop \<^verbatim>\<open>for handler in self.handlers\<close>, from position \<open>i\<close> on. The result is
  the calls made in order, then what \<^verbatim>\<open>route_query\<close> returns or raises, then the
  world left behind.
\<close>

fun route_loop ::
  "handler list \<Rightarrow> nat \<Rightarrow> string \<Rightarrow> world
     \<Rightarrow> call list \<times> (py_exception + HandlerResponse) \<times> world"
where
  "route_loop [] i query_text w =
     ([], Inr (mk_response ''not_handled''
                 ''Sorry, Architect. I don't have a handler for this task.''), w)"
| "route_loop (h # hs) i query_text w =
     (if can_handle h query_text
      then ([Can_Handle i, Process i], process h query_text w)
      else (let (calls, result) = route_loop hs (Suc i) query_text w
            in (Can_Handle i # calls, result)))"

definition route_query ::
  "handler list \<Rightarrow> string \<Rightarrow> world \<Rightarrow> call list \<times> (py_exception + HandlerResponse) \<times> world"
where
  "route_query handlers query_text w = route_loop handlers 0 query_text w"

subsection \<open>Auxiliary functions of the proofs\<close>

text \<open>What the loop of \<^verbatim>\<open>_load_handlers\<close> amounts to on the list itself: the first
  instance of \<^verbatim>\<open>ChatHandler\<close> goes to the end.\<close>

fun relocate :: "handler list \<Rightarrow> handler list" where
  "relocate [] = []"
| "relocate (h # hs) = (if isinstance_ChatHandler h then hs @ [h] else h # relocate hs)"

text \<open>The positions of the handlers whose \<^verbatim>\<open>process\<close> was called, in order.\<close>

fun processed :: "call list \<Rightarrow> nat list" where
  "processed [] = []"
| "processed (Can_Handle i # cs) = processed cs"
| "processed (Process i # cs) = i # processed cs"

text \<open>A world for the concrete instances: no key, no network, nothing done yet.\<close>

definition quiet_world :: world where
  "quiet_world =
     \<lparr>api_key = None, transport = (\<lambda>n p. Raised (RequestException None ''offline'')),
      platform_system = ''Linux'', git_diff_staged = Completed [],
      posts = 0, sleeps = [], os_commands = []\<rparr>"

text \<open>A response body of the shape the client reads, with \<open>t\<close> as the text of the first
  part of the first candidate.\<close>

definition candidates_json :: "json \<Rightarrow> json" where
  "candidates_json t =
     JObj [(''candidates'',
       JArr [JObj [(''content'', JObj [(''parts'', JArr [JObj [(''text'', t)]])])]])]"

text \<open>Replies, transports and a world with a key, for the concrete instances.\<close>

definition http_reply :: "int \<Rightarrow> json \<Rightarrow> post_outcome" where
  "http_reply sc body =
     Returned \<lparr>status_code = sc, http_error_text = ''HTTP error'', json_body = Inr body\<rparr>"

definition online_world :: "(nat \<Rightarrow> string \<Rightarrow> post_outcome) \<Rightarrow> world" where
  "online_world t =
     \<lparr>api_key = Some ''key'', transport = t,
      platform_system = ''Linux'', git_diff_staged = Completed [],
      posts = 0, sleeps = [], os_commands = []\<rparr>"

definition always_503 :: "nat \<Rightarrow> string \<Rightarrow> post_outcome" where
  "always_503 n prompt = http_reply 503 JNull"

definition twice_503_then_200 :: "nat \<Rightarrow> string \<Rightarrow> post_outcome" where
  "twice_503_then_200 n prompt =
     (if n < 2 then http_reply 503 JNull else http_reply 200 (candidates_json (JStr '' Hello. '')))"

definition always_404 :: "nat \<Rightarrow> string \<Rightarrow> post_outcome" where
  "always_404 n prompt = http_reply 404 JNull"

definition always_offline :: "nat \<Rightarrow> string \<Rightarrow> post_outcome" where
  "always_offline n prompt = Raised (RequestException None ''Connection refused'')"

definition null_text_200 :: "nat \<Rightarrow> string \<Rightarrow> post_outcome" where
  "null_text_200 n prompt = http_reply 200 (candidates_json JNull)"

section \<open>The registry\<close>

lemma pop_append_at: "pop_append (length pre) (pre @ h # suf) = pre @ suf @ [h]"
  by (simp add: pop_append_def)

lemma move_fallback_relocate:
  "\<forall>h\<in>set pre. \<not> isinstance_ChatHandler h \<Longrightarrow>
   move_fallback (enumerate (length pre) suf) (pre @ suf) = pre @ relocate suf"
proof (induction suf arbitrary: pre)
  case Nil
  then show ?case by simp
next
  case (Cons h suf)
  show ?case
  proof (cases "isinstance_ChatHandler h")
    case True
    then show ?thesis by (simp add: pop_append_at)
  next
    case False
    with Cons.prems have "\<forall>g\<in>set (pre @ [h]). \<not> isinstance_ChatHandler g" by simp
    from Cons.IH [OF this] False show ?thesis by simp
  qed
qed

lemma load_handlers_relocate: "load_handlers ds = relocate (sort_key class_name ds)"
  using move_fallback_relocate [of "[]" "sort_key class_name ds"]
  by (simp add: load_handlers_def Let_def)

lemma relocate_set: "set (relocate hs) = set hs"
  by (induction hs) auto

lemma relocate_length: "length (relocate hs) = length hs"
  by (induction hs) auto

lemma relocate_Nil: "relocate hs = [] \<longleftrightarrow> hs = []"
  by (cases hs) auto

lemma relocate_last:
  "\<exists>h\<in>set hs. isinstance_ChatHandler h \<Longrightarrow> isinstance_ChatHandler (last (relocate hs))"
  by (induction hs) (auto simp: relocate_Nil)

lemma relocate_butlast_set: "set (butlast (relocate hs)) \<subseteq> set hs"
  using in_set_butlastD [of _ "relocate hs"] by (auto simp: relocate_set)

lemma relocate_butlast_sorted:
  "\<exists>h\<in>set hs. isinstance_ChatHandler h \<Longrightarrow> sorted (map f hs) \<Longrightarrow>
     sorted (map f (butlast (relocate hs)))"
proof (induction hs)
  case Nil
  then show ?case by simp
next
  case (Cons h hs)
  show ?case
  proof (cases "isinstance_ChatHandler h")
    case True
    with Cons.prems show ?thesis by simp
  next
    case False
    with Cons.prems have ex: "\<exists>g\<in>set hs. isinstance_ChatHandler g" by auto
    then have ne: "relocate hs \<noteq> []" by (auto simp: relocate_Nil)
    from Cons.prems have srt: "sorted (map f hs)" and le: "\<forall>g\<in>set hs. f h \<le> f g" by auto
    from Cons.IH [OF ex srt] have "sorted (map f (butlast (relocate hs)))" .
    moreover from le relocate_butlast_set [of hs]
    have "\<forall>g\<in>set (butlast (relocate hs)). f h \<le> f g" by blast
    ultimately show ?thesis using False ne by simp
  qed
qed

lemma load_handlers_set: "set (load_handlers ds) = set ds"
  by (simp add: load_handlers_relocate relocate_set)

lemma load_handlers_length: "length (load_handlers ds) = length ds"
  by (simp add: load_handlers_relocate relocate_length)

lemma relocate_mset: "mset (relocate hs) = mset hs"
  by (induction hs) auto

lemma relocate_butlast_instances:
  "\<exists>h\<in>set hs. isinstance_ChatHandler h \<Longrightarrow>
     length (filter isinstance_ChatHandler (butlast (relocate hs)))
       = length (filter isinstance_ChatHandler hs) - 1"
proof (induction hs)
  case Nil
  then show ?case by simp
next
  case (Cons h hs)
  show ?case
  proof (cases "isinstance_ChatHandler h")
    case True
    then show ?thesis by simp
  next
    case False
    with Cons.prems have ex: "\<exists>g\<in>set hs. isinstance_ChatHandler g" by auto
    then have "relocate hs \<noteq> []" by (auto simp: relocate_Nil)
    with Cons.IH [OF ex] False show ?thesis by simp
  qed
qed

lemma load_handlers_mset: "mset (load_handlers ds) = mset ds"
  by (simp add: load_handlers_relocate relocate_mset)

lemma filter_sort_key_length: "length (filter P (sort_key f xs)) = length (filter P xs)"
proof -
  have "mset (filter P (sort_key f xs)) = mset (filter P xs)" by simp
  then show ?thesis by (rule mset_eq_length)
qed

text \<open>
  Claim C1. Whenever the discovered handlers contain an instance of the fallback class
  \<^verbatim>\<open>ChatHandler\<close>, the list \<^verbatim>\<open>_load_handlers\<close> returns holds exactly the
  discovered handlers, each as often as it was discovered; it is not empty, its last
  element is an instance of \<^verbatim>\<open>ChatHandler\<close>, and the elements before the last are
  in ascending lexicographic order of their class names. Exactly one instance of
  \<^verbatim>\<open>ChatHandler\<close> is taken out of that order: a second one stays in its sorted place
  among the elements before the last.
\<close>

theorem load_handlers_fallback_last:
  assumes "\<exists>h\<in>set discovered. isinstance_ChatHandler h"
  shows "mset (load_handlers discovered) = mset discovered
       \<and> load_handlers discovered \<noteq> []
       \<and> isinstance_ChatHandler (last (load_handlers discovered))
       \<and> sorted (map class_name (butlast (load_handlers discovered)))
       \<and> length (filter isinstance_ChatHandler (butlast (load_handlers discovered)))
           = length (filter isinstance_ChatHandler discovered) - 1"
proof -
  let ?s = "sort_key class_name discovered"
  from assms have ex: "\<exists>h\<in>set ?s. isinstance_ChatHandler h" by simp
  from assms have "length ?s \<noteq> 0" by (auto simp del: length_0_conv)
  then have ne: "?s \<noteq> []" by (simp del: length_sort)
  have srt: "sorted (map class_name ?s)" by (rule sorted_sort_key)
  have 1: "mset (load_handlers discovered) = mset discovered" by (rule load_handlers_mset)
  have 2: "load_handlers discovered \<noteq> []"
    using ne by (simp add: load_handlers_relocate relocate_Nil)
  have 3: "isinstance_ChatHandler (last (load_handlers discovered))"
    using relocate_last [OF ex] by (simp add: load_handlers_relocate)
  have 4: "sorted (map class_name (butlast (load_handlers discovered)))"
    using relocate_butlast_sorted [OF ex srt] by (simp add: load_handlers_relocate)
  have 5: "length (filter isinstance_ChatHandler (butlast (load_handlers discovered)))
           = length (filter isinstance_ChatHandler discovered) - 1"
    using relocate_butlast_instances [OF ex]
    by (simp only: load_handlers_relocate filter_sort_key_length)
  from 1 2 3 4 5 show ?thesis by blast
qed

lemma isinstance_ChatHandler_ChatHandler: "isinstance_ChatHandler ChatHandler"
  by (simp add: ChatHandler_def)

theorem load_handlers_fallback_last_witness:
  "isinstance_ChatHandler ChatHandler
   \<and> mset (load_handlers [SystemHandler, ChatHandler, GitHandler])
       = mset [SystemHandler, ChatHandler, GitHandler]
   \<and> load_handlers [SystemHandler, ChatHandler, GitHandler] \<noteq> []
   \<and> isinstance_ChatHandler (last (load_handlers [SystemHandler, ChatHandler, GitHandler]))
   \<and> sorted (map class_name (butlast (load_handlers [SystemHandler, ChatHandler, GitHandler])))"
proof -
  have "\<exists>h\<in>set [SystemHandler, ChatHandler, GitHandler]. isinstance_ChatHandler h"
    by (simp add: isinstance_ChatHandler_ChatHandler)
  from load_handlers_fallback_last [OF this] show ?thesis
    by (simp add: isinstance_ChatHandler_ChatHandler)
qed

section \<open>Routing\<close>

lemma processed_Can_Handle [simp]: "processed (map Can_Handle is) = []"
  by (induction "is") auto

lemma processed_append [simp]: "processed (cs @ ds) = processed cs @ processed ds"
  by (induction cs rule: processed.induct) auto

lemma route_loop_none:
  "\<forall>h\<in>set hs. \<not> can_handle h q \<Longrightarrow>
   route_loop hs i q w =
     (map Can_Handle [i..<i + length hs],
      Inr (mk_response ''not_handled'' ''Sorry, Architect. I don't have a handler for this task.''),
      w)"
proof (induction hs arbitrary: i)
  case Nil
  then show ?case by simp
next
  case (Cons h hs)
  then have "route_loop hs (Suc i) q w =
     (map Can_Handle [Suc i..<Suc i + length hs],
      Inr (mk_response ''not_handled'' ''Sorry, Architect. I don't have a handler for this task.''),
      w)" by simp
  with Cons.prems show ?case by (simp add: upt_conv_Cons del: upt_Suc)
qed

lemma upt_step: "[i..<i + Suc n] = i # [Suc i..<Suc i + n]"
  by (simp add: upt_conv_Cons del: upt_Suc)

lemma route_loop_first:
  "\<forall>g\<in>set pre. \<not> can_handle g q \<Longrightarrow> can_handle h q \<Longrightarrow>
   route_loop (pre @ h # post) i q w =
     (map Can_Handle [i..<i + length pre] @ [Can_Handle (i + length pre), Process (i + length pre)],
      process h q w)"
proof (induction pre arbitrary: i)
  case Nil
  then show ?case by simp
next
  case (Cons g pre)
  from Cons.prems have pre: "\<forall>g\<in>set pre. \<not> can_handle g q" and g: "\<not> can_handle g q"
    by simp_all
  have ih: "route_loop (pre @ h # post) (Suc i) q w =
     (map Can_Handle [Suc i..<Suc i + length pre]
        @ [Can_Handle (Suc i + length pre), Process (Suc i + length pre)],
      process h q w)"
    by (rule Cons.IH [OF pre Cons.prems(2)])
  have "route_loop ((g # pre) @ h # post) i q w =
     (Can_Handle i # map Can_Handle [Suc i..<Suc i + length pre]
        @ [Can_Handle (Suc i + length pre), Process (Suc i + length pre)],
      process h q w)"
    using g ih by (simp del: upt_Suc)
  then show ?case by (simp add: upt_conv_Cons del: upt_Suc)
qed

lemma route_query_cases:
  "(\<forall>h\<in>set hs. \<not> can_handle h q) \<and>
     route_query hs q w = (map Can_Handle [0..<length hs],
       Inr (mk_response ''not_handled'' ''Sorry, Architect. I don't have a handler for this task.''), w)
   \<or> (\<exists>i<length hs. can_handle (hs ! i) q \<and> (\<forall>j<i. \<not> can_handle (hs ! j) q) \<and>
        route_query hs q w = (map Can_Handle [0..<i] @ [Can_Handle i, Process i], process (hs ! i) q w))"
proof (cases "\<exists>h\<in>set hs. can_handle h q")
  case False
  then have none: "\<forall>h\<in>set hs. \<not> can_handle h q" by simp
  from route_loop_none [OF none, of 0 w] none show ?thesis by (simp add: route_query_def)
next
  case True
  then obtain pre h post
    where hs: "hs = pre @ h # post" and h: "can_handle h q"
      and pre: "\<forall>g\<in>set pre. \<not> can_handle g q"
    using split_list_first_prop [of hs "\<lambda>h. can_handle h q"] by blast
  let ?i = "length pre"
  have 1: "?i < length hs" using hs by simp
  have 2: "hs ! ?i = h" using hs by simp
  have 3: "\<forall>j<?i. \<not> can_handle (hs ! j) q"
    using pre hs by (simp add: nth_append)
  have 4: "route_query hs q w = (map Can_Handle [0..<?i] @ [Can_Handle ?i, Process ?i], process (hs ! ?i) q w)"
    using route_loop_first [OF pre h, of post 0 w] hs 2 by (simp add: route_query_def)
  from 1 2 3 4 h have "\<exists>i<length hs. can_handle (hs ! i) q \<and> (\<forall>j<i. \<not> can_handle (hs ! j) q) \<and>
        route_query hs q w = (map Can_Handle [0..<i] @ [Can_Handle i, Process i], process (hs ! i) q w)"
    by (intro exI [of _ ?i]) simp
  then show ?thesis by (rule disjI2)
qed

text \<open>
  Claim C2. For every handler list, query and world, \<^verbatim>\<open>route_query\<close> calls
  \<^verbatim>\<open>process\<close> on at most one handler. When it does, at position \<open>i\<close>, that
  handler accepts the query and no handler before it does; \<^verbatim>\<open>route_query\<close> returns
  what that \<^verbatim>\<open>process\<close> returns, and the calls made are \<^verbatim>\<open>can_handle\<close> on
  the positions \<open>0\<close> to \<open>i\<close> followed by that one \<^verbatim>\<open>process\<close>: no later
  handler is consulted.
\<close>

theorem route_query_first_match:
  "length (processed (fst (route_query hs q w))) \<le> 1
   \<and> (\<forall>i\<in>set (processed (fst (route_query hs q w))).
         i < length hs \<and> can_handle (hs ! i) q \<and> (\<forall>j<i. \<not> can_handle (hs ! j) q)
         \<and> snd (route_query hs q w) = process (hs ! i) q w
         \<and> fst (route_query hs q w) = map Can_Handle [0..<i] @ [Can_Handle i, Process i])"
proof -
  from route_query_cases [of hs q w] show ?thesis
  proof (elim disjE conjE exE)
    assume "route_query hs q w = (map Can_Handle [0..<length hs],
       Inr (mk_response ''not_handled'' ''Sorry, Architect. I don't have a handler for this task.''), w)"
    then show ?thesis by simp
  next
    fix i
    assume "i < length hs" "can_handle (hs ! i) q" "\<forall>j<i. \<not> can_handle (hs ! j) q"
      "route_query hs q w = (map Can_Handle [0..<i] @ [Can_Handle i, Process i], process (hs ! i) q w)"
    then show ?thesis by simp
  qed
qed

text \<open>
  Claim C8. When no handler accepts the query, \<^verbatim>\<open>route_query\<close> returns the
  response with status \<^verbatim>\<open>not_handled\<close> and the fixed apology, leaves the world as
  it was, and has called \<^verbatim>\<open>can_handle\<close> on every handler and \<^verbatim>\<open>process\<close>
  on none.
\<close>

theorem route_query_not_handled:
  assumes "\<forall>h\<in>set hs. \<not> can_handle h q"
  shows "route_query hs q w =
           (map Can_Handle [0..<length hs],
            Inr \<lparr>status = ''not_handled'',
                 display_message = ''Sorry, Architect. I don't have a handler for this task.'',
                 metadata = Map.empty\<rparr>,
            w)
         \<and> processed (fst (route_query hs q w)) = []"
  using route_loop_none [OF assms, of 0 w] by (simp add: route_query_def mk_response_def)

lemma GitHandler_declines_clear: "\<not> GitHandler_can_handle ''clear''" by code_simp
lemma SystemHandler_declines_clear: "\<not> SystemHandler_can_handle ''clear''" by code_simp
lemma SystemHandler_accepts_cls: "SystemHandler_can_handle ''cls''" by code_simp
lemma GitHandler_declines_cls: "\<not> GitHandler_can_handle ''cls''" by code_simp


lemma can_handle_GitHandler: "can_handle GitHandler = GitHandler_can_handle"
  by (simp add: GitHandler_def)

lemma can_handle_SystemHandler: "can_handle SystemHandler = SystemHandler_can_handle"
  by (simp add: SystemHandler_def)

lemma can_handle_ChatHandler: "can_handle ChatHandler q"
  by (simp add: ChatHandler_def ChatHandler_can_handle_def)

theorem route_query_first_match_witness:
  "processed (fst (route_query [GitHandler, SystemHandler, ChatHandler] ''cls'' quiet_world)) = [1]
   \<and> \<not> can_handle GitHandler ''cls''
   \<and> can_handle SystemHandler ''cls''
   \<and> snd (route_query [GitHandler, SystemHandler, ChatHandler] ''cls'' quiet_world)
       = process SystemHandler ''cls'' quiet_world
   \<and> fst (route_query [GitHandler, SystemHandler, ChatHandler] ''cls'' quiet_world)
       = [Can_Handle 0, Can_Handle 1, Process 1]"
proof -
  have p: "processed (fst (route_query [GitHandler, SystemHandler, ChatHandler] ''cls'' quiet_world))
             = [1]"
    by (simp add: route_query_def can_handle_GitHandler can_handle_SystemHandler SystemHandler_accepts_cls GitHandler_declines_cls)
  from route_query_first_match [of "[GitHandler, SystemHandler, ChatHandler]" "''cls''" quiet_world] p
  show ?thesis by simp
qed

theorem route_query_not_handled_witness:
  "\<not> can_handle GitHandler ''clear'' \<and> \<not> can_handle SystemHandler ''clear''
   \<and> route_query [GitHandler, SystemHandler] ''clear'' quiet_world =
        ([Can_Handle 0, Can_Handle 1],
         Inr \<lparr>status = ''not_handled'',
              display_message = ''Sorry, Architect. I don't have a handler for this task.'',
              metadata = Map.empty\<rparr>,
         quiet_world)
   \<and> processed (fst (route_query [GitHandler, SystemHandler] ''clear'' quiet_world)) = []"
proof -
  have h: "\<forall>h\<in>set [GitHandler, SystemHandler]. \<not> can_handle h ''clear''"
    by (simp add: can_handle_GitHandler can_handle_SystemHandler GitHandler_declines_clear SystemHandler_declines_clear)
  from route_query_not_handled [OF h, of quiet_world] h show ?thesis
    by (simp add: upt_conv_Cons del: upt_Suc)
qed

section \<open>The Gemini client\<close>

lemma try_body_http_error:
  "400 \<le> status_code r \<Longrightarrow> status_code r < 600 \<Longrightarrow>
   try_body (Returned r) = Inl (RequestException (Some (status_code r)) (http_error_text r))"
  by (simp add: try_body_def raise_for_status_def bind_exc_def)

lemma try_body_candidates:
  "\<not> (400 \<le> status_code r \<and> status_code r < 600) \<Longrightarrow> json_body r = Inr (candidates_json t) \<Longrightarrow>
   try_body (Returned r) = strip_method t"
  by (auto simp: try_body_def raise_for_status_def bind_exc_def candidates_json_def)

lemma query_attempts_server_error:
  assumes "transport w (posts w) p = Returned r" "500 \<le> status_code r" "status_code r < 600"
  shows "query_attempts (a # rest) p w =
           query_attempts rest p (w\<lparr>posts := Suc (posts w), sleeps := sleeps w @ [2 ^ a]\<rparr>)"
  using assms
  by (simp add: requests_post_def try_body_http_error time_sleep_def base_delay_def)

lemma query_attempts_client_error:
  assumes "transport w (posts w) p = Returned r" "400 \<le> status_code r" "status_code r < 500"
  shows "query_attempts (a # rest) p w =
           (Inr (None, Some (''Error communicating with the Gemini API: '' @ http_error_text r)),
            w\<lparr>posts := Suc (posts w)\<rparr>)"
  using assms
  by (simp add: requests_post_def try_body_http_error)

lemma query_attempts_request_exception:
  assumes "transport w (posts w) p = Raised (RequestException resp txt)"
    "\<not> is_server_error (RequestException resp txt)"
  shows "query_attempts (a # rest) p w =
           (Inr (None, Some (''Error communicating with the Gemini API: '' @ txt)),
            w\<lparr>posts := Suc (posts w)\<rparr>)"
  using assms
  by (simp add: requests_post_def try_body_def)

lemma query_attempts_answer:
  assumes "transport w (posts w) p = Returned r"
    "\<not> (400 \<le> status_code r \<and> status_code r < 600)" "json_body r = Inr (candidates_json (JStr t))"
  shows "query_attempts (a # rest) p w = (Inr (Some (py_strip t), None), w\<lparr>posts := Suc (posts w)\<rparr>)"
  using assms
  by (simp add: requests_post_def try_body_candidates)

lemma query_attempts_null_text:
  assumes "transport w (posts w) p = Returned r"
    "\<not> (400 \<le> status_code r \<and> status_code r < 600)" "json_body r = Inr (candidates_json JNull)"
  shows "query_attempts (a # rest) p w = (Inl AttributeError, w\<lparr>posts := Suc (posts w)\<rparr>)"
  using assms
  by (simp add: requests_post_def try_body_candidates)

lemma range_max_retries: "[0..<max_retries] = [0, 1, 2]"
  by (simp add: max_retries_def upt_conv_Cons del: upt_Suc)


text \<open>
  Claim C5. With a key configured, if each of the three requests is answered with a status
  from 500 to 599 (503 among them), \<^verbatim>\<open>query\<close> returns no answer together with the
  fixed message that the server remains unavailable, and it has made exactly three
  requests.
\<close>

theorem query_unavailable_after_three_attempts:
  assumes "truthy (api_key w)"
    and "\<forall>n<max_retries. \<exists>r. transport w (posts w + n) prompt = Returned r
            \<and> 500 \<le> status_code r \<and> status_code r < 600"
  shows "fst (query prompt w) =
           Inr (None, Some ''The Gemini server remains unavailable after several attempts.'')
       \<and> posts (snd (query prompt w)) = posts w + 3"
proof -
  from assms(2) obtain r0 r1 r2
    where r0: "transport w (posts w) prompt = Returned r0" "500 \<le> status_code r0" "status_code r0 < 600"
      and r1: "transport w (Suc (posts w)) prompt = Returned r1" "500 \<le> status_code r1" "status_code r1 < 600"
      and r2: "transport w (Suc (Suc (posts w))) prompt = Returned r2" "500 \<le> status_code r2" "status_code r2 < 600"
  proof -
    have a: "\<exists>r. transport w (posts w + n) prompt = Returned r
            \<and> 500 \<le> status_code r \<and> status_code r < 600" if "n < 3" for n
      using assms(2) that by (simp add: max_retries_def)
    from a [of 0] a [of 1] a [of 2] that show thesis by auto
  qed
  let ?w1 = "w\<lparr>posts := Suc (posts w), sleeps := sleeps w @ [2 ^ 0]\<rparr>"
  let ?w2 = "?w1\<lparr>posts := Suc (posts ?w1), sleeps := sleeps ?w1 @ [2 ^ 1]\<rparr>"
  let ?w3 = "?w2\<lparr>posts := Suc (posts ?w2), sleeps := sleeps ?w2 @ [2 ^ 2]\<rparr>"
  have 1: "query_attempts [0, 1, 2] prompt w = query_attempts [1, 2] prompt ?w1"
    by (rule query_attempts_server_error [OF r0])
  have 2: "query_attempts [1, 2] prompt ?w1 = query_attempts [2] prompt ?w2"
    by (rule query_attempts_server_error [of ?w1 prompt r1]) (simp_all add: r1)
  have 3: "query_attempts [2] prompt ?w2 = query_attempts [] prompt ?w3"
    by (rule query_attempts_server_error [of ?w2 prompt r2]) (simp_all add: r2)
  from assms(1) have "query prompt w = query_attempts [0, 1, 2] prompt w"
    by (simp add: query_def range_max_retries)
  then have "query prompt w = query_attempts [] prompt ?w3"
    by (simp only: 1 2 3)
  then show ?thesis by simp
qed


lemma online_world_simps:
  "api_key (online_world t) = Some ''key''" "transport (online_world t) = t"
  "posts (online_world t) = 0" "sleeps (online_world t) = []"
  by (simp_all add: online_world_def)

lemma http_reply_simps:
  "http_reply sc body = Returned r \<Longrightarrow> status_code r = sc"
  by (auto simp: http_reply_def)

theorem query_unavailable_after_three_attempts_witness:
  "truthy (api_key (online_world always_503))
   \<and> always_503 0 ''hi'' = http_reply 503 JNull
   \<and> fst (query ''hi'' (online_world always_503)) =
        Inr (None, Some ''The Gemini server remains unavailable after several attempts.'')
   \<and> posts (snd (query ''hi'' (online_world always_503))) = 3"
proof -
  have k: "truthy (api_key (online_world always_503))"
    by (simp add: online_world_simps truthy_def)
  have t: "\<forall>n<max_retries. \<exists>r. transport (online_world always_503)
              (posts (online_world always_503) + n) ''hi'' = Returned r
            \<and> 500 \<le> status_code r \<and> status_code r < 600"
    by (simp add: online_world_simps always_503_def http_reply_def)
  from query_unavailable_after_three_attempts [OF k t] k show ?thesis
    by (simp add: online_world_simps always_503_def)
qed

text \<open>
  Claim C3, at a transport that always answers 503. \<^verbatim>\<open>query\<close> makes three requests
  and sleeps three times, for 1, 2 and 4 seconds: the last sleep comes after the final
  attempt, when no retry follows.
\<close>

theorem query_sleeps_after_final_attempt:
  "query ''hi'' (online_world always_503) =
     (Inr (None, Some ''The Gemini server remains unavailable after several attempts.''),
      (online_world always_503)\<lparr>posts := 3, sleeps := [1, 2, 4]\<rparr>)"
proof -
  let ?w = "online_world always_503"
  let ?r = "\<lparr>status_code = 503, http_error_text = ''HTTP error'', json_body = Inr JNull\<rparr>"
  have r: "always_503 n ''hi'' = Returned ?r" for n
    by (simp add: always_503_def http_reply_def)
  let ?w1 = "?w\<lparr>posts := Suc (posts ?w), sleeps := sleeps ?w @ [2 ^ 0]\<rparr>"
  let ?w2 = "?w1\<lparr>posts := Suc (posts ?w1), sleeps := sleeps ?w1 @ [2 ^ 1]\<rparr>"
  let ?w3 = "?w2\<lparr>posts := Suc (posts ?w2), sleeps := sleeps ?w2 @ [2 ^ 2]\<rparr>"
  have 1: "query_attempts [0, 1, 2] ''hi'' ?w = query_attempts [1, 2] ''hi'' ?w1"
    by (rule query_attempts_server_error [of _ _ ?r]) (simp_all add: online_world_simps r)
  have 2: "query_attempts [1, 2] ''hi'' ?w1 = query_attempts [2] ''hi'' ?w2"
    by (rule query_attempts_server_error [of _ _ ?r]) (simp_all add: online_world_simps r)
  have 3: "query_attempts [2] ''hi'' ?w2 = query_attempts [] ''hi'' ?w3"
    by (rule query_attempts_server_error [of _ _ ?r]) (simp_all add: online_world_simps r)
  have "query ''hi'' ?w = query_attempts [0, 1, 2] ''hi'' ?w"
    by (simp add: query_def range_max_retries online_world_simps truthy_def)
  then have "query ''hi'' ?w = query_attempts [] ''hi'' ?w3"
    by (simp only: 1 2 3)
  then show ?thesis by (simp add: online_world_simps)
qed

text \<open>
  The scenario of two failures and a success: after two answers with a status from 500 to 599 and a
  third with status 200 and a well-formed body, \<^verbatim>\<open>query\<close> returns the stripped text
  of the third answer, and the two sleeps before it are of 1 and 2 seconds.
\<close>

lemma query_two_server_errors_then_answer:
  assumes "truthy (api_key w)"
    and r0: "transport w (posts w) prompt = Returned r0" "500 \<le> status_code r0" "status_code r0 < 600"
    and r1: "transport w (Suc (posts w)) prompt = Returned r1" "500 \<le> status_code r1" "status_code r1 < 600"
    and r2: "transport w (Suc (Suc (posts w))) prompt = Returned r2" "status_code r2 = 200"
            "json_body r2 = Inr (candidates_json (JStr t))"
  shows "query prompt w =
           (Inr (Some (py_strip t), None), w\<lparr>posts := posts w + 3, sleeps := sleeps w @ [1, 2]\<rparr>)"
proof -
  let ?w1 = "w\<lparr>posts := Suc (posts w), sleeps := sleeps w @ [2 ^ 0]\<rparr>"
  let ?w2 = "?w1\<lparr>posts := Suc (posts ?w1), sleeps := sleeps ?w1 @ [2 ^ 1]\<rparr>"
  have 1: "query_attempts [0, 1, 2] prompt w = query_attempts [1, 2] prompt ?w1"
    by (rule query_attempts_server_error [OF r0])
  have 2: "query_attempts [1, 2] prompt ?w1 = query_attempts [2] prompt ?w2"
    by (rule query_attempts_server_error [of ?w1 prompt r1]) (simp_all add: r1)
  have 3: "query_attempts [2] prompt ?w2 =
             (Inr (Some (py_strip t), None), ?w2\<lparr>posts := Suc (posts ?w2)\<rparr>)"
    by (rule query_attempts_answer [of ?w2 prompt r2]) (simp_all add: r2)
  from assms(1) have "query prompt w = query_attempts [0, 1, 2] prompt w"
    by (simp add: query_def range_max_retries)
  then have "query prompt w = (Inr (Some (py_strip t), None), ?w2\<lparr>posts := Suc (posts ?w2)\<rparr>)"
    by (simp only: 1 2 3)
  then show ?thesis by simp
qed

lemma py_strip_Hello: "py_strip '' Hello. '' = ''Hello.''"
  by code_simp

lemma query_twice_503_then_200:
  "query ''hi'' (online_world twice_503_then_200) =
     (Inr (Some ''Hello.'', None), (online_world twice_503_then_200)\<lparr>posts := 3, sleeps := [1, 2]\<rparr>)"
  using query_two_server_errors_then_answer [of "online_world twice_503_then_200" "''hi''"
      "\<lparr>status_code = 503, http_error_text = ''HTTP error'', json_body = Inr JNull\<rparr>"
      "\<lparr>status_code = 503, http_error_text = ''HTTP error'', json_body = Inr JNull\<rparr>"
      "\<lparr>status_code = 200, http_error_text = ''HTTP error'',
        json_body = Inr (candidates_json (JStr '' Hello. ''))\<rparr>" "'' Hello. ''"]
  by (simp add: online_world_simps twice_503_then_200_def http_reply_def truthy_def py_strip_Hello)


text \<open>
  Claim C6. With a key configured, if the first request is answered with a status from 400
  to 499 (404 among them), or raises a \<^verbatim>\<open>RequestException\<close> that carries no response
  (a connection-level failure) or a response whose status is not from 500 to 599,
  \<^verbatim>\<open>query\<close> returns no answer together with the message "Error communicating with
  the Gemini API: " followed by the text of the exception; it has made exactly one request
  and has not slept.
\<close>

theorem query_no_retry_on_other_failure:
  assumes "truthy (api_key w)"
    and "(\<exists>r. transport w (posts w) prompt = Returned r
             \<and> 400 \<le> status_code r \<and> status_code r < 500 \<and> txt = http_error_text r)
         \<or> transport w (posts w) prompt = Raised (RequestException None txt)
         \<or> (\<exists>sc. transport w (posts w) prompt = Raised (RequestException (Some sc) txt)
             \<and> (sc < 500 \<or> 600 \<le> sc))"
  shows "query prompt w =
           (Inr (None, Some (''Error communicating with the Gemini API: '' @ txt)),
            w\<lparr>posts := Suc (posts w)\<rparr>)"
proof -
  from assms(1) have q: "query prompt w = query_attempts [0, 1, 2] prompt w"
    by (simp add: query_def range_max_retries)
  from assms(2) consider
      (status) r where "transport w (posts w) prompt = Returned r" "400 \<le> status_code r"
        "status_code r < 500" "txt = http_error_text r"
    | (no_response) "transport w (posts w) prompt = Raised (RequestException None txt)"
    | (other_response) sc where
        "transport w (posts w) prompt = Raised (RequestException (Some sc) txt)"
        "sc < 500 \<or> 600 \<le> sc"
    by blast
  then show ?thesis
  proof cases
    case status
    from query_attempts_client_error [OF status(1,2,3)] q status(4) show ?thesis by simp
  next
    case no_response
    have b: "\<not> is_server_error (RequestException None txt)" by simp
    from query_attempts_request_exception [OF no_response b] q show ?thesis by simp
  next
    case other_response
    from other_response(2) have b: "\<not> is_server_error (RequestException (Some sc) txt)"
      by auto
    from query_attempts_request_exception [OF other_response(1) b] q show ?thesis by simp
  qed
qed

theorem query_no_retry_on_other_failure_witness:
  "truthy (api_key (online_world always_404))
   \<and> always_404 0 ''hi'' = http_reply 404 JNull
   \<and> query ''hi'' (online_world always_404) =
        (Inr (None, Some ''Error communicating with the Gemini API: HTTP error''),
         (online_world always_404)\<lparr>posts := 1\<rparr>)
   \<and> truthy (api_key (online_world always_offline))
   \<and> always_offline 0 ''hi'' = Raised (RequestException None ''Connection refused'')
   \<and> query ''hi'' (online_world always_offline) =
        (Inr (None, Some ''Error communicating with the Gemini API: Connection refused''),
         (online_world always_offline)\<lparr>posts := 1\<rparr>)"
proof -
  have k: "truthy (api_key (online_world t))" for t
    by (simp add: online_world_simps truthy_def)
  have t: "(\<exists>r. transport (online_world always_404) (posts (online_world always_404)) ''hi''
               = Returned r
             \<and> 400 \<le> status_code r \<and> status_code r < 500 \<and> ''HTTP error'' = http_error_text r)
         \<or> transport (online_world always_404) (posts (online_world always_404)) ''hi''
               = Raised (RequestException None ''HTTP error'')
         \<or> (\<exists>sc. transport (online_world always_404) (posts (online_world always_404)) ''hi''
               = Raised (RequestException (Some sc) ''HTTP error'')
             \<and> (sc < 500 \<or> 600 \<le> sc))"
    by (simp add: online_world_simps always_404_def http_reply_def)
  have u: "(\<exists>r. transport (online_world always_offline) (posts (online_world always_offline)) ''hi''
               = Returned r
             \<and> 400 \<le> status_code r \<and> status_code r < 500
             \<and> ''Connection refused'' = http_error_text r)
         \<or> transport (online_world always_offline) (posts (online_world always_offline)) ''hi''
               = Raised (RequestException None ''Connection refused'')
         \<or> (\<exists>sc. transport (online_world always_offline) (posts (online_world always_offline)) ''hi''
               = Raised (RequestException (Some sc) ''Connection refused'')
             \<and> (sc < 500 \<or> 600 \<le> sc))"
    by (simp add: online_world_simps always_offline_def)
  from query_no_retry_on_other_failure [OF k t] query_no_retry_on_other_failure [OF k u] k
  show ?thesis
    by (simp add: online_world_simps always_404_def always_offline_def)
qed

text \<open>
  Claim C7. When \<^verbatim>\<open>config.GEMINI_API_KEY\<close> is \<^verbatim>\<open>None\<close> or empty, \<^verbatim>\<open>query\<close>
  returns no answer together with the configuration message and leaves the world as it
  was: no request is made and nothing is retried.
\<close>

theorem query_without_key:
  assumes "api_key w = None \<or> api_key w = Some []"
  shows "query prompt w = (Inr (None, Some ''GEMINI_API_KEY not found in configuration.''), w)"
  using assms by (auto simp: query_def truthy_def)

theorem query_without_key_witness:
  "api_key quiet_world = None
   \<and> query ''hi'' quiet_world =
        (Inr (None, Some ''GEMINI_API_KEY not found in configuration.''), quiet_world)"
proof -
  have k: "api_key quiet_world = None \<or> api_key quiet_world = Some []"
    by (simp add: quiet_world_def)
  from query_without_key [OF k, of "''hi''"] show ?thesis
    by (simp add: quiet_world_def)
qed

section \<open>Faults of a handler\<close>

lemma process_ChatHandler: "process ChatHandler = ChatHandler_process"
  by (simp add: ChatHandler_def)

lemma GitHandler_declines_hello: "\<not> GitHandler_can_handle ''hello''"
  by code_simp

lemma SystemHandler_declines_hello: "\<not> SystemHandler_can_handle ''hello''"
  by code_simp

lemma class_name_simps:
  "class_name GitHandler = ''GitHandler''" "class_name SystemHandler = ''SystemHandler''"
  "class_name ChatHandler = ''ChatHandler''"
  by (simp_all add: GitHandler_def SystemHandler_def ChatHandler_def)

lemma isinstance_simps:
  "\<not> isinstance_ChatHandler GitHandler" "\<not> isinstance_ChatHandler SystemHandler"
  by (simp_all add: GitHandler_def SystemHandler_def)

lemma load_handlers_repository:
  "load_handlers [ChatHandler, GitHandler, SystemHandler] = [GitHandler, SystemHandler, ChatHandler]"
  by (simp add: load_handlers_relocate class_name_simps isinstance_simps
      isinstance_ChatHandler_ChatHandler)

lemma route_query_selects:
  assumes "i < length hs" "can_handle (hs ! i) q" "\<forall>j<i. \<not> can_handle (hs ! j) q"
  shows "route_query hs q w = (map Can_Handle [0..<i] @ [Can_Handle i, Process i], process (hs ! i) q w)"
proof -
  from assms(1,2) have "\<not> (\<forall>h\<in>set hs. \<not> can_handle h q)" by auto
  with route_query_cases [of hs q w] obtain k
    where k: "k < length hs" "can_handle (hs ! k) q" "\<forall>j<k. \<not> can_handle (hs ! j) q"
      and r: "route_query hs q w =
                (map Can_Handle [0..<k] @ [Can_Handle k, Process k], process (hs ! k) q w)"
    by blast
  from assms(2,3) k(2,3) have "k = i" by (meson linorder_neqE_nat)
  with r show ?thesis by simp
qed

lemma query_attempts_escaping:
  "fst (query_attempts attempts p w) = Inl e \<Longrightarrow>
     e = TypeError \<or> e = AttributeError \<or> (\<exists>msg. e = OtherError msg)"
  by (induction attempts arbitrary: w)
     (auto simp: requests_post_def split: sum.splits py_exception.splits if_splits)

text \<open>
  Claim C4, at the three handlers of the repository, a key configured and a transport that
  answers 200 with a body whose text is \<^verbatim>\<open>null\<close>. \<^verbatim>\<open>answer.strip()\<close> raises
  \<^verbatim>\<open>AttributeError\<close>; the \<^verbatim>\<open>except\<close> clauses of \<^verbatim>\<open>query\<close> catch
  \<^verbatim>\<open>RequestException\<close>, \<^verbatim>\<open>KeyError\<close> and \<^verbatim>\<open>IndexError\<close> only,
  \<^verbatim>\<open>ChatHandler.process\<close> and \<^verbatim>\<open>route_query\<close> have none, and the exception
  reaches the caller of \<^verbatim>\<open>route_query\<close> in place of a response with status
  \<^verbatim>\<open>failed\<close>.
\<close>

theorem route_query_fault_escapes:
  "fst (snd (route_query (load_handlers [ChatHandler, GitHandler, SystemHandler]) ''hello''
               (online_world null_text_200)))
     = Inl AttributeError"
proof -
  let ?w = "online_world null_text_200"
  let ?r = "\<lparr>status_code = 200, http_error_text = ''HTTP error'',
             json_body = Inr (candidates_json JNull)\<rparr>"
  have "query_attempts [0, 1, 2] (build_personality_prompt ''hello'') ?w =
          (Inl AttributeError, ?w\<lparr>posts := Suc (posts ?w)\<rparr>)"
    by (rule query_attempts_null_text [of _ _ ?r])
       (simp_all add: online_world_simps null_text_200_def http_reply_def)
  then have "query (build_personality_prompt ''hello'') ?w =
          (Inl AttributeError, ?w\<lparr>posts := Suc (posts ?w)\<rparr>)"
    by (simp add: query_def range_max_retries online_world_simps truthy_def)
  then have "fst (ChatHandler_process ''hello'' ?w) = Inl AttributeError"
    by (simp add: ChatHandler_process_def)
  then show ?thesis
    by (simp add: load_handlers_repository route_query_def can_handle_GitHandler
        can_handle_SystemHandler can_handle_ChatHandler GitHandler_declines_hello
        SystemHandler_declines_hello process_ChatHandler)
qed

section \<open>The system handler\<close>

lemma lower_char_eq_letter:
  fixes n :: nat
  assumes "97 \<le> n" "n \<le> 122"
  shows "lower_char c = char_of n \<longleftrightarrow> c = char_of n \<or> c = char_of (n - 32)"
proof -
  define m where "m = (of_char c :: nat)"
  have c: "c = char_of m" by (simp add: m_def)
  have m: "m < 256" by (simp add: m_def)
  have lc: "lower_char c = (if 65 \<le> m \<and> m \<le> 90 then char_of (m + 32) else c)"
    by (simp add: lower_char_def less_eq_char_def m_def)
  have 1: "char_of m = (char_of k :: char) \<longleftrightarrow> m = k" if "k < 256" for k
    using m that by simp
  have 2: "char_of (m + 32) = (char_of n :: char) \<longleftrightarrow> m + 32 = n" if "m \<le> 90"
    using assms that by simp
  have cn: "c = char_of n \<longleftrightarrow> m = n"
    using 1 [of n] assms by (subst c) simp
  have cu: "c = char_of (n - 32) \<longleftrightarrow> m = n - 32"
    using 1 [of "n - 32"] assms by (subst c) simp
  show ?thesis
  proof (cases "65 \<le> m \<and> m \<le> 90")
    case True
    then have "lower_char c = char_of (m + 32)" using lc by auto
    then have "lower_char c = char_of n \<longleftrightarrow> m + 32 = n" using 2 True by simp
    then show ?thesis using cn cu True assms by auto
  next
    case False
    then have "lower_char c = c" using lc by auto
    then show ?thesis using cn cu False assms by auto
  qed
qed

lemma chr_c: "CHR ''c'' = char_of (99::nat)" "CHR ''C'' = char_of (99 - 32 :: nat)" by code_simp+
lemma chr_l: "CHR ''l'' = char_of (108::nat)" "CHR ''L'' = char_of (108 - 32 :: nat)" by code_simp+
lemma chr_s: "CHR ''s'' = char_of (115::nat)" "CHR ''S'' = char_of (115 - 32 :: nat)" by code_simp+

lemma lower_char_c: "lower_char x = CHR ''c'' \<longleftrightarrow> x = CHR ''c'' \<or> x = CHR ''C''"
  unfolding chr_c by (rule lower_char_eq_letter) simp_all

lemma lower_char_l: "lower_char x = CHR ''l'' \<longleftrightarrow> x = CHR ''l'' \<or> x = CHR ''L''"
  unfolding chr_l by (rule lower_char_eq_letter) simp_all

lemma lower_char_s: "lower_char x = CHR ''s'' \<longleftrightarrow> x = CHR ''s'' \<or> x = CHR ''S''"
  unfolding chr_s by (rule lower_char_eq_letter) simp_all

lemma py_lower_cls:
  "py_lower q = ''cls'' \<longleftrightarrow>
     q \<in> {''cls'', ''clS'', ''cLs'', ''cLS'', ''Cls'', ''ClS'', ''CLs'', ''CLS''}"
proof -
  have "py_lower q = ''cls'' \<longleftrightarrow>
    (\<exists>a b c. q = [a, b, c] \<and> lower_char a = CHR ''c'' \<and> lower_char b = CHR ''l''
       \<and> lower_char c = CHR ''s'')"
    by (auto simp: py_lower_def map_eq_Cons_conv)
  also have "\<dots> \<longleftrightarrow> q \<in> {''cls'', ''clS'', ''cLs'', ''cLS'', ''Cls'', ''ClS'', ''CLs'', ''CLS''}"
    unfolding lower_char_c lower_char_l lower_char_s by auto
  finally show ?thesis .
qed

lemma route_query_clear:
  assumes "ChatHandler \<in> set ds" "set ds \<subseteq> {GitHandler, SystemHandler, ChatHandler}"
  shows "\<exists>i<length (load_handlers ds). load_handlers ds ! i = ChatHandler
           \<and> route_query (load_handlers ds) ''clear'' w =
               (map Can_Handle [0..<i] @ [Can_Handle i, Process i],
                process ChatHandler ''clear'' w)"
proof -
  let ?hs = "load_handlers ds"
  from assms(1) have "ChatHandler \<in> set ?hs" by (simp add: load_handlers_set)
  then have "\<not> (\<forall>h\<in>set ?hs. \<not> can_handle h ''clear'')"
    using can_handle_ChatHandler by blast
  with route_query_cases [of ?hs "''clear''" w] obtain i
    where i: "i < length ?hs" "can_handle (?hs ! i) ''clear''"
      and r: "route_query ?hs ''clear'' w =
                (map Can_Handle [0..<i] @ [Can_Handle i, Process i], process (?hs ! i) ''clear'' w)"
    by blast
  from i(1) have "?hs ! i \<in> set ds" using load_handlers_set nth_mem by blast
  with assms(2) have "?hs ! i = GitHandler \<or> ?hs ! i = SystemHandler \<or> ?hs ! i = ChatHandler"
    by blast
  with i(2) have "?hs ! i = ChatHandler"
    by (auto simp: can_handle_GitHandler can_handle_SystemHandler GitHandler_declines_clear
        SystemHandler_declines_clear)
  with i(1) r show ?thesis by auto
qed

text \<open>
  Claim C10. \<^verbatim>\<open>SystemHandler.can_handle\<close> holds exactly when the lowercased query
  is \<^verbatim>\<open>cls\<close>, that is for the eight spellings of \<^verbatim>\<open>cls\<close> in upper and lower
  case; it does not hold for \<^verbatim>\<open>clear\<close>. Whenever the discovered handlers are the
  three of the repository, in any order and number, with \<^verbatim>\<open>ChatHandler\<close> among them,
  \<^verbatim>\<open>route_query\<close> calls \<^verbatim>\<open>process\<close> of \<^verbatim>\<open>ChatHandler\<close> on \<^verbatim>\<open>clear\<close>
  and returns its outcome.
\<close>

theorem SystemHandler_accepts_exactly_cls:
  "(can_handle SystemHandler q \<longleftrightarrow> py_lower q = ''cls'')
   \<and> (can_handle SystemHandler q \<longleftrightarrow>
        q \<in> {''cls'', ''clS'', ''cLs'', ''cLS'', ''Cls'', ''ClS'', ''CLs'', ''CLS''})
   \<and> \<not> can_handle SystemHandler ''clear''
   \<and> (ChatHandler \<in> set ds \<and> set ds \<subseteq> {GitHandler, SystemHandler, ChatHandler} \<longrightarrow>
        (\<exists>i<length (load_handlers ds). load_handlers ds ! i = ChatHandler
           \<and> route_query (load_handlers ds) ''clear'' w =
               (map Can_Handle [0..<i] @ [Can_Handle i, Process i],
                process ChatHandler ''clear'' w)))"
proof -
  have 1: "can_handle SystemHandler q \<longleftrightarrow> py_lower q = ''cls''"
    by (simp add: can_handle_SystemHandler SystemHandler_can_handle_def)
  have 2: "\<not> can_handle SystemHandler ''clear''"
    by (simp add: can_handle_SystemHandler SystemHandler_declines_clear)
  from 1 2 py_lower_cls [of q] route_query_clear [of ds w] show ?thesis by blast
qed

theorem SystemHandler_accepts_exactly_cls_witness:
  "ChatHandler \<in> set [ChatHandler, GitHandler, SystemHandler]
   \<and> can_handle SystemHandler ''CLS''
   \<and> \<not> can_handle SystemHandler ''clear''
   \<and> snd (route_query (load_handlers [ChatHandler, GitHandler, SystemHandler]) ''clear''
            quiet_world)
       = process ChatHandler ''clear'' quiet_world"
proof -
  note t = SystemHandler_accepts_exactly_cls
      [of "''CLS''" "[ChatHandler, GitHandler, SystemHandler]" quiet_world]
  have "''CLS'' \<in> {''cls'', ''clS'', ''cLs'', ''cLS'', ''Cls'', ''ClS'', ''CLs'', ''CLS''}"
    by simp
  with t have "can_handle SystemHandler ''CLS''" by blast
  moreover from t have "\<not> can_handle SystemHandler ''clear''" by blast
  moreover from t obtain i where
    "route_query (load_handlers [ChatHandler, GitHandler, SystemHandler]) ''clear'' quiet_world =
       (map Can_Handle [0..<i] @ [Can_Handle i, Process i],
        process ChatHandler ''clear'' quiet_world)"
    by auto
  ultimately show ?thesis by simp
qed

end
